theory Spec2Isabelle
  imports Complex_Main "HOL-Library.Sublist"
begin

section \<open>Strings\<close>

text \<open>
  A Python \<open>str\<close> is modelled as a \<open>string\<close> (a list of characters, one per code
  point; the model covers code points below 256). Python's \<open>s in t\<close> on strings is the
  contiguous-substring test, which is \<open>sublist s t\<close>.
\<close>

text \<open>\<open>str.lower()\<close> on the ASCII letters; every other character is left as it is.\<close>

definition lower_char :: "char \<Rightarrow> char" where
  "lower_char c =
     (let n = (of_char c :: nat) in if 65 \<le> n \<and> n \<le> 90 then char_of (n + 32) else c)"

definition lower :: "string \<Rightarrow> string" where
  "lower s = map lower_char s"

text \<open>\<open>s.split(sep)\<close> for a one-character separator: never the empty list.\<close>

fun py_split :: "char \<Rightarrow> string \<Rightarrow> string list" where
  "py_split sep [] = [[]]"
| "py_split sep (c # cs) =
     (if c = sep then [] # py_split sep cs
      else (case py_split sep cs of [] \<Rightarrow> [[c]] | w # ws \<Rightarrow> (c # w) # ws))"

text \<open>\<open>str(n)\<close> for a non-negative integer, in decimal.\<close>

definition digit_char :: "nat \<Rightarrow> char" where
  "digit_char d = char_of (48 + d)"

fun str_nat :: "nat \<Rightarrow> string" where
  "str_nat n = (if n < 10 then [digit_char n] else str_nat (n div 10) @ [digit_char (n mod 10)])"

declare str_nat.simps [simp del]

definition str_int :: "int \<Rightarrow> string" where
  "str_int i = (if i < 0 then CHR ''-'' # str_nat (nat (- i)) else str_nat (nat i))"

text \<open>\<open>', '.join(xs)\<close>.\<close>

fun join_comma :: "string list \<Rightarrow> string" where
  "join_comma [] = []"
| "join_comma [x] = x"
| "join_comma (x # y # ys) = x @ '', '' @ join_comma (y # ys)"

text \<open>
  \<open>len(content.splitlines())\<close>. The line boundaries of \<open>str.splitlines\<close> among the
  code points below 256 are LF, CR, CR LF (one boundary), VT, FF, FS, GS, RS and NEL; a
  last line needs no boundary after it.
\<close>

definition is_linebreak :: "char \<Rightarrow> bool" where
  "is_linebreak c = ((of_char c :: nat) \<in> {10, 11, 12, 13, 28, 29, 30, 133})"

fun count_lines :: "string \<Rightarrow> nat" where
  "count_lines [] = 0"
| "count_lines [c] = 1"
| "count_lines (c # d # cs) =
     (if (of_char c :: nat) = 13 \<and> (of_char d :: nat) = 10 then Suc (count_lines cs)
      else if is_linebreak c then Suc (count_lines (d # cs))
      else count_lines (d # cs))"

text \<open>\<open>s[:k]\<close>: a negative \<open>k\<close> counts from the end of the string.\<close>

definition slice_to :: "int \<Rightarrow> string \<Rightarrow> string" where
  "slice_to k s = (if 0 \<le> k then take (nat k) s else take (length s - nat (- k)) s)"

definition nl :: string where
  "nl = [CHR 0x0A]"

section \<open>The syntax tree\<close>

text \<open>
  The tree that \<open>ast.parse\<close> returns, as far as the analyzer looks at it: a node has a
  kind and the child nodes that \<open>ast.iter_child_nodes\<close> yields, in order. A kind
  carries the attributes the analyzer reads:
  \<^item> \<open>ClassDef name lineno bases doc\<close>: \<open>bases\<close> is the text the analyzer stores for
    each base (\<open>base.id\<close>, or \<open>str(base)\<close>), \<open>doc\<close> is \<open>ast.get_docstring(node)\<close>;
  \<^item> \<open>FunctionDef name lineno args doc\<close>: \<open>args\<close> are the names in \<open>node.args.args\<close>;
  \<^item> \<open>BoolOp op\<close>: the children of the node are its operands, \<open>node.values\<close> (the
    operator token, which has no children and is of none of the classes the analyzer
    tests for, is not listed);
  \<^item> \<open>Import names\<close> and \<open>ImportFrom module names\<close>: the \<open>alias.name\<close> of each alias;
  \<^item> \<open>Other\<close>: every other class of node.
  The function definitions among the children of a \<open>ClassDef\<close> are those of its body
  (its other children are expressions).
\<close>

datatype boolop = And | Or

datatype kind =
    Module
  | ClassDef string nat "string list" "string option"
  | FunctionDef string nat "string list" "string option"
  | If' | For | While | Try
  | BoolOp boolop
  | Import "string list"
  | ImportFrom "string option" "string list"
  | Other

datatype node = Node (kind_of: kind) (children: "node list")

fun nodes_size :: "node list \<Rightarrow> nat" where
  "nodes_size [] = 0"
| "nodes_size (Node k cs # ns) = Suc (nodes_size cs + nodes_size ns)"

text \<open>
  \<open>ast.walk\<close>: breadth first, from a queue; the argument is the queue.
  \<open>ast.walk(tree)\<close> is \<open>walk [tree]\<close>.
\<close>

function walk :: "node list \<Rightarrow> node list" where
  "walk [] = []"
| "walk (Node k cs # todo) = Node k cs # walk (todo @ cs)"
  by pat_completeness auto
termination
proof (relation "measure nodes_size")
  show "wf (measure nodes_size)" by simp
next
  fix k :: kind and cs todo :: "node list"
  have "nodes_size (xs @ cs) = nodes_size xs + nodes_size cs" for xs
    by (induction xs rule: nodes_size.induct) auto
  then show "(todo @ cs, Node k cs # todo) \<in> measure nodes_size" by simp
qed

section \<open>Complexity, docstrings, unused imports\<close>

definition is_branch :: "kind \<Rightarrow> bool" where
  "is_branch k = (k = If' \<or> k = For \<or> k = While \<or> k = Try)"

text \<open>The body of the loop of \<open>_calculate_complexity\<close>, and the loop.\<close>

definition complexity_step :: "node \<Rightarrow> int \<Rightarrow> int" where
  "complexity_step n complexity =
     (if is_branch (kind_of n) then complexity + 1
      else if kind_of n = BoolOp And then complexity + (int (length (children n)) - 1)
      else complexity)"

fun complexity_loop :: "node list \<Rightarrow> int \<Rightarrow> int" where
  "complexity_loop [] complexity = complexity"
| "complexity_loop (n # ns) complexity = complexity_loop ns (complexity_step n complexity)"

definition calculate_complexity :: "node \<Rightarrow> int" where
  "calculate_complexity tree = complexity_loop (walk [tree]) 1"

text \<open>The same for \<open>_calculate_function_complexity\<close>, whose loop has one test only.\<close>

definition function_complexity_step :: "node \<Rightarrow> int \<Rightarrow> int" where
  "function_complexity_step n complexity =
     (if is_branch (kind_of n) then complexity + 1 else complexity)"

fun function_complexity_loop :: "node list \<Rightarrow> int \<Rightarrow> int" where
  "function_complexity_loop [] complexity = complexity"
| "function_complexity_loop (n # ns) complexity =
     function_complexity_loop ns (function_complexity_step n complexity)"

definition calculate_function_complexity :: "node \<Rightarrow> int" where
  "calculate_function_complexity func_node = function_complexity_loop (walk [func_node]) 1"

record docstring_stats =
  doc_functions :: nat
  doc_classes :: nat
  total_functions :: nat
  total_classes :: nat

text \<open>A docstring counts when \<open>ast.get_docstring\<close> returns a non-empty string.\<close>

definition truthy_doc :: "string option \<Rightarrow> bool" where
  "truthy_doc d = (case d of None \<Rightarrow> False | Some s \<Rightarrow> s \<noteq> [])"

definition docstrings_step :: "node \<Rightarrow> docstring_stats \<Rightarrow> docstring_stats" where
  "docstrings_step n d =
     (case kind_of n of
        FunctionDef name lineno args doc \<Rightarrow>
          (let d1 = d\<lparr>total_functions := total_functions d + 1\<rparr>
           in if truthy_doc doc then d1\<lparr>doc_functions := doc_functions d1 + 1\<rparr> else d1)
      | ClassDef name lineno bases doc \<Rightarrow>
          (let d1 = d\<lparr>total_classes := total_classes d + 1\<rparr>
           in if truthy_doc doc then d1\<lparr>doc_classes := doc_classes d1 + 1\<rparr> else d1)
      | _ \<Rightarrow> d)"

fun docstrings_loop :: "node list \<Rightarrow> docstring_stats \<Rightarrow> docstring_stats" where
  "docstrings_loop [] d = d"
| "docstrings_loop (n # ns) d = docstrings_loop ns (docstrings_step n d)"

definition check_docstrings :: "node \<Rightarrow> docstring_stats" where
  "check_docstrings tree =
     docstrings_loop (walk [tree])
       \<lparr>doc_functions = 0, doc_classes = 0, total_functions = 0, total_classes = 0\<rparr>"

text \<open>
  The identifiers one node adds to \<open>imports\<close>: \<open>alias.name\<close> for \<open>import\<close>, and
  \<open>module.name\<close> for \<open>from module import name\<close>, or the bare name when
  \<open>node.module or ''\<close> is empty.
\<close>

definition from_import_name :: "string option \<Rightarrow> string \<Rightarrow> string" where
  "from_import_name module' name =
     (let m = (case module' of None \<Rightarrow> [] | Some s \<Rightarrow> s)
      in if m \<noteq> [] then m @ ''.'' @ name else name)"

definition import_names :: "node \<Rightarrow> string list" where
  "import_names n =
     (case kind_of n of
        Import names \<Rightarrow> names
      | ImportFrom module' names \<Rightarrow> map (from_import_name module') names
      | _ \<Rightarrow> [])"

fun collect_imports :: "node list \<Rightarrow> string list \<Rightarrow> string list" where
  "collect_imports [] imps = imps"
| "collect_imports (n # ns) imps = collect_imports ns (imps @ import_names n)"

text \<open>\<open>imp.split('.')[-1]\<close>.\<close>

definition base_name :: "string \<Rightarrow> string" where
  "base_name imp = last (py_split CHR ''.'' imp)"

fun unused_loop :: "string \<Rightarrow> string list \<Rightarrow> string list \<Rightarrow> string list" where
  "unused_loop content [] unused = unused"
| "unused_loop content (imp # imps) unused =
     unused_loop content imps
       (if \<not> sublist (base_name imp) content then unused @ [imp] else unused)"

definition detect_unused_imports :: "string \<Rightarrow> node \<Rightarrow> string list" where
  "detect_unused_imports content tree =
     unused_loop content (collect_imports (walk [tree]) []) []"

section \<open>File records\<close>

text \<open>
  What the analyzer asks of the world outside it. An exception is a value: \<open>Inl\<close> of
  the exception raised.
  \<^item> \<open>stat_size p\<close>: \<open>p.stat().st_size\<close>;
  \<^item> \<open>read_text p\<close>: the text of the file, opened for reading as UTF-8
    (\<open>f.read(n)\<close> is the first \<open>n\<close> characters of it);
  \<^item> \<open>ast_parse content\<close>: \<open>ast.parse(content)\<close>;
  \<^item> \<open>format_percent x\<close>: the text of \<open>x\<close> under the format \<open>.1%\<close>.
\<close>

datatype py_error =
    OSError string
  | UnicodeDecodeError string
  | SyntaxError string
  | ValueError string
  | ZeroDivisionError string

fun str_of_error :: "py_error \<Rightarrow> string" where
  "str_of_error (OSError m) = m"
| "str_of_error (UnicodeDecodeError m) = m"
| "str_of_error (SyntaxError m) = m"
| "str_of_error (ValueError m) = m"
| "str_of_error (ZeroDivisionError m) = m"

record env =
  stat_size :: "string \<Rightarrow> py_error + nat"
  read_text :: "string \<Rightarrow> py_error + string"
  ast_parse :: "string \<Rightarrow> py_error + node"
  format_percent :: "real \<Rightarrow> string"

text \<open>
  A \<open>Path\<close> that \<open>_get_files\<close> returned: the path itself, \<open>str\<close> of the path relative
  to the root, \<open>.name\<close> and \<open>.suffix\<close>.
\<close>

record path =
  full_path :: string
  rel_path :: string
  name' :: string
  suffix' :: string

record class_decl =
  cls_name :: string
  cls_line :: nat
  cls_methods :: "string list"
  cls_bases :: "string list"

record function_decl =
  fn_name :: string
  fn_line :: nat
  fn_args :: "string list"
  fn_complexity :: int

text \<open>
  The dictionary of one file. The keys \<open>size\<close>, \<open>extension\<close> and \<open>type\<close> are always
  there; a key that may be absent is an \<open>option\<close>.
\<close>

record file_info =
  size' :: nat
  extension :: string
  type' :: string
  classes :: "class_decl list option"
  functions' :: "function_decl list option"
  imports' :: "string list option"
  line_count :: "nat option"
  content_preview :: "string option"
  complexity :: "int option"
  docstrings :: "docstring_stats option"
  unused_imports :: "string list option"
  error :: "string option"

text \<open>The dictionary \<open>_analyze_python_file\<close> returns: the analysis, or the error only.\<close>

datatype py_result =
    Analysis "class_decl list" "function_decl list" "string list" nat string int
      docstring_stats "string list"
  | Failure string

text \<open>\<open>info.update(d)\<close> for such a dictionary.\<close>

fun update_info :: "file_info \<Rightarrow> py_result \<Rightarrow> file_info" where
  "update_info info (Analysis cs fs imps lc preview cx ds unused) =
     info\<lparr>classes := Some cs, functions' := Some fs, imports' := Some imps,
          line_count := Some lc, content_preview := Some preview, complexity := Some cx,
          docstrings := Some ds, unused_imports := Some unused\<rparr>"
| "update_info info (Failure e) = info\<lparr>error := Some e\<rparr>"

text \<open>The names of the function definitions among some nodes (a class's methods).\<close>

fun function_names :: "node list \<Rightarrow> string list" where
  "function_names [] = []"
| "function_names (n # ns) =
     (case kind_of n of
        FunctionDef name lineno args doc \<Rightarrow> name # function_names ns
      | _ \<Rightarrow> function_names ns)"

text \<open>The loop of \<open>_analyze_python_file\<close> over \<open>ast.walk(tree)\<close>.\<close>

fun declarations_loop ::
  "node list \<Rightarrow> class_decl list \<times> function_decl list \<times> string list \<Rightarrow>
   class_decl list \<times> function_decl list \<times> string list" where
  "declarations_loop [] acc = acc"
| "declarations_loop (n # ns) (cs, fs, imps) =
     declarations_loop ns
       (case kind_of n of
          ClassDef name lineno bases doc \<Rightarrow>
            (cs @ [\<lparr>cls_name = name, cls_line = lineno,
                     cls_methods = function_names (children n), cls_bases = bases\<rparr>],
             fs, imps)
        | FunctionDef name lineno args doc \<Rightarrow>
            (cs,
             fs @ [\<lparr>fn_name = name, fn_line = lineno, fn_args = args,
                     fn_complexity = calculate_function_complexity n\<rparr>],
             imps)
        | Import names \<Rightarrow> (cs, fs, imps @ names)
        | ImportFrom module' names \<Rightarrow> (cs, fs, imps @ map (from_import_name module') names)
        | _ \<Rightarrow> (cs, fs, imps))"

definition preview_500 :: "string \<Rightarrow> string" where
  "preview_500 content = (if length content > 500 then take 500 content @ ''...'' else content)"

definition analyze_python_file :: "env \<Rightarrow> path \<Rightarrow> py_result" where
  "analyze_python_file e p =
     (case read_text e (full_path p) of
        Inl ex \<Rightarrow> Failure (str_of_error ex)
      | Inr content \<Rightarrow>
          (case ast_parse e content of
             Inl ex \<Rightarrow> Failure (str_of_error ex)
           | Inr tree \<Rightarrow>
               (case declarations_loop (walk [tree]) ([], [], []) of
                  (cs, fs, imps) \<Rightarrow>
                    Analysis cs fs imps (count_lines content) (preview_500 content)
                      (calculate_complexity tree) (check_docstrings tree)
                      (detect_unused_imports content tree))))"

definition get_content_preview :: "env \<Rightarrow> path \<Rightarrow> nat \<Rightarrow> string" where
  "get_content_preview e p max_chars =
     (case read_text e (full_path p) of
        Inl ex \<Rightarrow> ''[Binary or unreadable file]''
      | Inr text \<Rightarrow>
          (let content = take max_chars text
           in if length content = max_chars then content @ ''...'' else content))"

definition type_map :: "(string \<times> string) list" where
  "type_map =
     [(''.py'', ''Python''), (''.json'', ''JSON''), (''.txt'', ''Text''),
      (''.md'', ''Markdown''), (''.html'', ''HTML''), (''.css'', ''CSS''),
      (''.js'', ''JavaScript''), (''.ts'', ''TypeScript''), (''.cpp'', ''C++''),
      (''.c'', ''C''), (''.java'', ''Java'')]"

definition get_file_type :: "path \<Rightarrow> string" where
  "get_file_type p =
     (case map_of type_map (lower (suffix' p)) of None \<Rightarrow> ''Unknown'' | Some t \<Rightarrow> t)"

definition analyze_file :: "env \<Rightarrow> path \<Rightarrow> py_error + file_info" where
  "analyze_file e p =
     (case stat_size e (full_path p) of
        Inl ex \<Rightarrow> Inl ex
      | Inr sz \<Rightarrow>
          (let info = \<lparr>size' = sz, extension = suffix' p, type' = get_file_type p,
                       classes = None, functions' = None, imports' = None, line_count = None,
                       content_preview = None, complexity = None, docstrings = None,
                       unused_imports = None, error = None\<rparr>
           in if suffix' p = ''.py'' then Inr (update_info info (analyze_python_file e p))
              else Inr (info\<lparr>content_preview := Some (get_content_preview e p 200)\<rparr>)))"

section \<open>Dictionaries\<close>

text \<open>
  A dictionary whose order of keys matters (the analyzer iterates over it) is the list of
  its items in insertion order. \<open>d[k] = v\<close> replaces the value of a key that is there
  and appends a new key.
\<close>

fun dict_set :: "'k \<Rightarrow> 'v \<Rightarrow> ('k \<times> 'v) list \<Rightarrow> ('k \<times> 'v) list" where
  "dict_set k v [] = [(k, v)]"
| "dict_set k v ((k', v') # kvs) =
     (if k = k' then (k, v) # kvs else (k', v') # dict_set k v kvs)"

definition dict_get :: "('k \<times> 'v) list \<Rightarrow> 'k \<Rightarrow> 'v \<Rightarrow> 'v" where
  "dict_get d k dflt = (case map_of d k of None \<Rightarrow> dflt | Some v \<Rightarrow> v)"

text \<open>
  \<open>a / b\<close> on integers raises on a zero divisor. The quotient is the exact one: the
  rounding of the result to a double is not modelled.
\<close>

definition py_truediv :: "int \<Rightarrow> int \<Rightarrow> py_error + real" where
  "py_truediv a b =
     (if b = 0 then Inl (ZeroDivisionError ''division by zero'')
      else Inr (real_of_int a / real_of_int b))"

section \<open>Architecture\<close>

record architecture =
  languages :: "(string \<times> nat) list"
  main_modules :: "string list"
  utils_modules :: "string list"
  test_files :: "string list"
  config_files :: "string list"
  total_files :: nat
  total_lines :: nat
  avg_file_size :: real

text \<open>The \<open>if\<close>/\<open>elif\<close> chain that puts a path into one of the four lists.\<close>

definition categorize :: "string \<Rightarrow> architecture \<Rightarrow> architecture" where
  "categorize file_path a =
     (if sublist ''main'' (lower file_path) \<or> sublist ''app'' (lower file_path)
        then a\<lparr>main_modules := main_modules a @ [file_path]\<rparr>
      else if sublist ''util'' (lower file_path) \<or> sublist ''helper'' (lower file_path)
        then a\<lparr>utils_modules := utils_modules a @ [file_path]\<rparr>
      else if sublist ''test'' (lower file_path) \<or> sublist ''spec'' (lower file_path)
        then a\<lparr>test_files := test_files a @ [file_path]\<rparr>
      else if sublist ''config'' (lower file_path) \<or> sublist ''settings'' (lower file_path)
        then a\<lparr>config_files := config_files a @ [file_path]\<rparr>
      else a)"

text \<open>
  The body of the loop of \<open>_analyze_architecture\<close>; the state is the summary and
  \<open>total_size\<close>.
\<close>

definition architecture_step ::
  "string \<times> file_info \<Rightarrow> architecture \<times> int \<Rightarrow> architecture \<times> int" where
  "architecture_step item st =
     (case (item, st) of
        ((file_path, info), (a, total_size)) \<Rightarrow>
          (let lang = type' info;
               a1 = a\<lparr>languages :=
                       dict_set lang (dict_get (languages a) lang 0 + 1) (languages a)\<rparr>;
               a2 = categorize file_path a1;
               a3 = (case line_count info of
                       None \<Rightarrow> a2
                     | Some n \<Rightarrow> a2\<lparr>total_lines := total_lines a2 + n\<rparr>)
           in (a3, total_size + int (size' info))))"

fun architecture_loop ::
  "(string \<times> file_info) list \<Rightarrow> architecture \<times> int \<Rightarrow> architecture \<times> int" where
  "architecture_loop [] st = st"
| "architecture_loop (item # items) st = architecture_loop items (architecture_step item st)"

definition architecture_init :: "(string \<times> file_info) list \<Rightarrow> architecture" where
  "architecture_init file_analysis =
     \<lparr>languages = [], main_modules = [], utils_modules = [], test_files = [],
      config_files = [], total_files = length file_analysis, total_lines = 0,
      avg_file_size = 0\<rparr>"

definition analyze_architecture :: "(string \<times> file_info) list \<Rightarrow> py_error + architecture" where
  "analyze_architecture file_analysis =
     (case architecture_loop file_analysis (architecture_init file_analysis, 0) of
        (a, total_size) \<Rightarrow>
          if total_files a > 0
          then (case py_truediv total_size (int (total_files a)) of
                  Inl ex \<Rightarrow> Inl ex
                | Inr q \<Rightarrow> Inr (a\<lparr>avg_file_size := q\<rparr>))
          else Inr a)"

section \<open>Issues\<close>

record issues =
  high_complexity_files :: "string list"
  missing_docstrings :: "string list"
  unused_import_issues :: "string list"
  large_files :: "string list"
  potential_bugs :: "string list"

text \<open>The five checks of \<open>_detect_issues\<close> on one record, each on its own list.\<close>

definition check_complexity :: "string \<Rightarrow> file_info \<Rightarrow> string list \<Rightarrow> string list" where
  "check_complexity file_path info xs =
     (case complexity info of
        None \<Rightarrow> xs
      | Some c \<Rightarrow>
          if c > 10 then xs @ [file_path @ '' (complexity: '' @ str_int c @ '')''] else xs)"

definition check_missing_docstrings ::
  "env \<Rightarrow> string \<Rightarrow> file_info \<Rightarrow> string list \<Rightarrow> py_error + string list" where
  "check_missing_docstrings e file_path info xs =
     (case docstrings info of
        None \<Rightarrow> Inr xs
      | Some d \<Rightarrow>
          if total_functions d > 0
          then (case py_truediv (int (doc_functions d)) (int (total_functions d)) of
                  Inl ex \<Rightarrow> Inl ex
                | Inr docstring_ratio \<Rightarrow>
                    if docstring_ratio < 0.5
                    then Inr (xs @ [file_path @ '' ('' @ format_percent e docstring_ratio
                                      @ '' functions documented)''])
                    else Inr xs)
          else Inr xs)"

definition check_unused :: "string \<Rightarrow> file_info \<Rightarrow> string list \<Rightarrow> string list" where
  "check_unused file_path info xs =
     (let unused = (case unused_imports info of None \<Rightarrow> [] | Some u \<Rightarrow> u)
      in if unused \<noteq> []
         then xs @ [file_path @ '': '' @ join_comma (take 3 unused)
                      @ (if length unused > 3 then ''...'' else [])]
         else xs)"

definition check_large :: "string \<Rightarrow> file_info \<Rightarrow> string list \<Rightarrow> string list" where
  "check_large file_path info xs =
     (case line_count info of
        None \<Rightarrow> xs
      | Some n \<Rightarrow> if n > 500 then xs @ [file_path @ '' ('' @ str_nat n @ '' lines)''] else xs)"

definition check_bugs :: "string \<Rightarrow> file_info \<Rightarrow> string list \<Rightarrow> string list" where
  "check_bugs file_path info xs =
     (let content = (case content_preview info of None \<Rightarrow> [] | Some c \<Rightarrow> c)
      in if sublist ''TODO'' content \<or> sublist ''FIXME'' content \<or> sublist ''XXX'' content
         then xs @ [file_path @ '' contains TODO/FIXME comments'']
         else xs)"

definition issues_step :: "env \<Rightarrow> string \<times> file_info \<Rightarrow> issues \<Rightarrow> py_error + issues" where
  "issues_step e item iss =
     (case item of
        (file_path, info) \<Rightarrow>
          if type' info \<noteq> ''Python'' then Inr iss
          else (case check_missing_docstrings e file_path info (missing_docstrings iss) of
                  Inl ex \<Rightarrow> Inl ex
                | Inr md \<Rightarrow>
                    Inr \<lparr>high_complexity_files =
                           check_complexity file_path info (high_complexity_files iss),
                         missing_docstrings = md,
                         unused_import_issues =
                           check_unused file_path info (unused_import_issues iss),
                         large_files = check_large file_path info (large_files iss),
                         potential_bugs = check_bugs file_path info (potential_bugs iss)\<rparr>))"

fun issues_loop :: "env \<Rightarrow> (string \<times> file_info) list \<Rightarrow> issues \<Rightarrow> py_error + issues" where
  "issues_loop e [] iss = Inr iss"
| "issues_loop e (item # items) iss =
     (case issues_step e item iss of
        Inl ex \<Rightarrow> Inl ex
      | Inr iss' \<Rightarrow> issues_loop e items iss')"

definition issues_init :: issues where
  "issues_init =
     \<lparr>high_complexity_files = [], missing_docstrings = [], unused_import_issues = [],
      large_files = [], potential_bugs = []\<rparr>"

definition detect_issues :: "env \<Rightarrow> (string \<times> file_info) list \<Rightarrow> py_error + issues" where
  "detect_issues e file_analysis = issues_loop e file_analysis issues_init"

section \<open>Suggestions, feedback, summary\<close>

record suggestions =
  sug_architecture :: "string list"
  sug_code_quality :: "string list"
  sug_performance :: "string list"
  sug_maintainability :: "string list"

definition generate_suggestions :: "architecture \<Rightarrow> issues \<Rightarrow> suggestions" where
  "generate_suggestions a iss =
     \<lparr>sug_architecture =
        (if length (main_modules a) = 0
         then [''Consider creating a main entry point file (main.py, app.py, etc.)''] else [])
        @ (if length (test_files a) = 0
           then [''Add unit tests to improve code reliability''] else []),
      sug_code_quality =
        (if high_complexity_files iss \<noteq> []
         then [''Refactor high-complexity functions into smaller, more focused functions'']
         else [])
        @ (if missing_docstrings iss \<noteq> []
           then [''Add docstrings to all public functions and classes''] else [])
        @ (if unused_import_issues iss \<noteq> []
           then [''Remove unused imports to clean up the codebase''] else []),
      sug_performance =
        (if avg_file_size a > 100000
         then [''Consider breaking large files into smaller modules''] else []),
      sug_maintainability =
        (if total_files a > 50
         then [''Consider organizing code into packages/submodules''] else [])\<rparr>"

text \<open>
  The warning sign that starts three lines of the feedback, as the bytes of its UTF-8
  encoding (it has code points above 255).
\<close>

definition warning_sign :: string where
  "warning_sign =
     [CHR 0xC3, CHR 0xA2, CHR 0xC5, CHR 0xA1, CHR 0xC2, CHR 0xA0, CHR 0xC3, CHR 0xAF,
      CHR 0xC2, CHR 0xB8]"

definition feedback_docstrings :: "env \<Rightarrow> file_info \<Rightarrow> py_error + string" where
  "feedback_docstrings e info =
     (case docstrings info of
        None \<Rightarrow> Inr []
      | Some d \<Rightarrow>
          if total_functions d > 0
          then (case py_truediv (int (doc_functions d)) (int (total_functions d)) of
                  Inl ex \<Rightarrow> Inl ex
                | Inr ratio \<Rightarrow>
                    if ratio < 0.5
                    then Inr (''- '' @ warning_sign @ ''  Low docstring coverage (''
                                @ format_percent e ratio @ '')'' @ nl)
                    else Inr [])
          else Inr [])"

definition feedback_python :: "env \<Rightarrow> file_info \<Rightarrow> py_error + string" where
  "feedback_python e info =
     (case feedback_docstrings e info of
        Inl ex \<Rightarrow> Inl ex
      | Inr doc_line \<Rightarrow>
          Inr ((case line_count info of
                  None \<Rightarrow> []
                | Some n \<Rightarrow> ''- Lines of code: '' @ str_nat n @ nl)
               @ (case classes info of
                    None \<Rightarrow> []
                  | Some cs \<Rightarrow>
                      if cs \<noteq> [] then ''- Classes: '' @ str_nat (length cs) @ nl else [])
               @ (case functions' info of
                    None \<Rightarrow> []
                  | Some fs \<Rightarrow>
                      if fs \<noteq> [] then ''- Functions: '' @ str_nat (length fs) @ nl else [])
               @ (case complexity info of
                    None \<Rightarrow> []
                  | Some c \<Rightarrow>
                      if c > 10
                      then ''- '' @ warning_sign @ ''  High complexity - consider refactoring'' @ nl
                      else [])
               @ doc_line
               @ (case unused_imports info of
                    None \<Rightarrow> []
                  | Some u \<Rightarrow>
                      if u \<noteq> []
                      then ''- '' @ warning_sign @ ''  Potential unused imports: ''
                             @ str_nat (length u) @ nl
                      else [])))"

definition feedback_step :: "env \<Rightarrow> string \<times> file_info \<Rightarrow> py_error + string" where
  "feedback_step e item =
     (case item of
        (file_path, info) \<Rightarrow>
          (let head = ''**'' @ file_path @ ''**'' @ nl
                        @ ''- Type: '' @ type' info @ nl
                        @ ''- Size: '' @ str_nat (size' info) @ '' bytes'' @ nl
           in if type' info = ''Python''
              then (case feedback_python e info of
                      Inl ex \<Rightarrow> Inl ex
                    | Inr body \<Rightarrow> Inr (head @ body))
              else Inr head))"

fun feedback_loop ::
  "env \<Rightarrow> (string \<times> file_info) list \<Rightarrow> (string \<times> string) list \<Rightarrow>
   py_error + (string \<times> string) list" where
  "feedback_loop e [] feedback = Inr feedback"
| "feedback_loop e (item # items) feedback =
     (case feedback_step e item of
        Inl ex \<Rightarrow> Inl ex
      | Inr file_feedback \<Rightarrow> feedback_loop e items (dict_set (fst item) file_feedback feedback))"

definition generate_file_feedback ::
  "env \<Rightarrow> (string \<times> file_info) list \<Rightarrow> py_error + (string \<times> string) list" where
  "generate_file_feedback e file_analysis = feedback_loop e file_analysis []"

record summary =
  sum_total_files :: nat
  sum_total_lines :: nat
  sum_languages :: "(string \<times> nat) list"
  issues_count :: nat
  sum_main_modules :: nat
  test_coverage :: real

definition create_summary :: "architecture \<Rightarrow> issues \<Rightarrow> py_error + summary" where
  "create_summary a iss =
     (case py_truediv (int (length (test_files a))) (max 1 (int (total_files a))) of
        Inl ex \<Rightarrow> Inl ex
      | Inr cov \<Rightarrow>
          Inr \<lparr>sum_total_files = total_files a, sum_total_lines = total_lines a,
               sum_languages = languages a,
               issues_count =
                 length (high_complexity_files iss) + length (missing_docstrings iss)
                 + length (unused_import_issues iss) + length (large_files iss)
                 + length (potential_bugs iss),
               sum_main_modules = length (main_modules a), test_coverage = cov\<rparr>)"

section \<open>The orchestrator\<close>

text \<open>
  What a run does that a caller can see, in order: a call of the progress callback with
  its message, and a read of the cancellation flag with what it returned.
\<close>

datatype event = Notify string | IsSet bool

record analysis_result =
  file_analysis :: "(string \<times> file_info) list"
  res_architecture :: architecture
  res_issues :: issues
  res_suggestions :: suggestions
  file_feedback :: "(string \<times> string) list"
  res_summary :: summary

text \<open>\<open>if self.progress_callback: self.progress_callback(msg)\<close>.\<close>

definition notify :: "bool \<Rightarrow> string \<Rightarrow> event list" where
  "notify has_callback msg = (if has_callback then [Notify msg] else [])"

text \<open>
  The loop over the files. The cancellation flag is set by another thread: \<open>is_set k\<close>
  is what the \<open>k\<close>-th read of it in this run returns (counting from 0). The loop
  returns its events and, unless \<open>_analyze_file\<close> raised, \<open>file_analysis\<close> and the
  number of reads of the flag so far. \<open>n_files\<close> is \<open>len(files)\<close>, \<open>i\<close> the index.
\<close>

fun analyze_loop ::
  "env \<Rightarrow> bool \<Rightarrow> (nat \<Rightarrow> bool) \<Rightarrow> nat \<Rightarrow> nat \<Rightarrow> path list \<Rightarrow>
   (string \<times> file_info) list \<Rightarrow> event list \<times> (py_error + (string \<times> file_info) list \<times> nat)" where
  "analyze_loop e cb is_set n_files i [] fa = ([], Inr (fa, i))"
| "analyze_loop e cb is_set n_files i (file_path # files) fa =
     (if is_set i then ([IsSet True], Inr (fa, Suc i))
      else
        (let evs = IsSet False
                     # notify cb (''Analyzing '' @ name' file_path @ ''... ('' @ str_nat (i + 1)
                                   @ ''/'' @ str_nat n_files @ '')'')
         in case analyze_file e file_path of
              Inl ex \<Rightarrow> (evs, Inl ex)
            | Inr info \<Rightarrow>
                (case analyze_loop e cb is_set n_files (Suc i) files
                        (dict_set (rel_path file_path) info fa) of
                   (evs', r) \<Rightarrow> (evs @ evs', r))))"

text \<open>The rest of \<open>analyze_project\<close>, after the loop; \<open>k\<close> reads of the flag were made.\<close>

definition final_notice :: "bool \<Rightarrow> (nat \<Rightarrow> bool) \<Rightarrow> nat \<Rightarrow> event list" where
  "final_notice cb is_set k =
     (if cb
      then [IsSet (is_set k),
            Notify (if is_set k then ''Analysis cancelled'' else ''Analysis completed'')]
      else [])"

definition analyze_stages ::
  "env \<Rightarrow> bool \<Rightarrow> (nat \<Rightarrow> bool) \<Rightarrow> nat \<Rightarrow> (string \<times> file_info) list \<Rightarrow>
   event list \<times> (py_error + analysis_result)" where
  "analyze_stages e cb is_set k fa =
     (let ev1 = notify cb ''Analyzing project architecture...''
      in case analyze_architecture fa of
           Inl ex \<Rightarrow> (ev1, Inl ex)
         | Inr a \<Rightarrow>
      (let ev2 = ev1 @ notify cb ''Detecting potential issues...''
       in case detect_issues e fa of
            Inl ex \<Rightarrow> (ev2, Inl ex)
          | Inr iss \<Rightarrow>
      (let ev3 = ev2 @ notify cb ''Generating improvement suggestions...'';
           sug = generate_suggestions a iss;
           ev4 = ev3 @ notify cb ''Creating file-specific feedback...''
       in case generate_file_feedback e fa of
            Inl ex \<Rightarrow> (ev4, Inl ex)
          | Inr fb \<Rightarrow>
      (let ev5 = ev4 @ final_notice cb is_set k
       in case create_summary a iss of
            Inl ex \<Rightarrow> (ev5, Inl ex)
          | Inr sm \<Rightarrow>
              (ev5, Inr \<lparr>file_analysis = fa, res_architecture = a, res_issues = iss,
                         res_suggestions = sug, file_feedback = fb, res_summary = sm\<rparr>)))))"

definition analyze_project ::
  "env \<Rightarrow> bool \<Rightarrow> (nat \<Rightarrow> bool) \<Rightarrow> path list \<Rightarrow> event list \<times> (py_error + analysis_result)" where
  "analyze_project e cb is_set files =
     (let ev0 = notify cb ''Starting project analysis...''
      in case analyze_loop e cb is_set (length files) 0 files [] of
           (evs, Inl ex) \<Rightarrow> (ev0 @ evs, Inl ex)
         | (evs, Inr (fa, k)) \<Rightarrow>
             (case analyze_stages e cb is_set k fa of
                (evs', r) \<Rightarrow> (ev0 @ evs @ evs', r)))"

section \<open>The analysis context\<close>

text \<open>
  \<open>current_context\<close> is \<open>None\<close> or the dictionary saved or read back, as the list of
  its items; of its values only the string under \<open>context_prompt\<close> is read.
\<close>

definition truncation_marker :: string where
  "truncation_marker = nl @ nl @ ''[Context truncated for length...]''"

definition get_context_for_chat :: "(string \<times> string) list option \<Rightarrow> int \<Rightarrow> string option" where
  "get_context_for_chat current_context max_length =
     (case current_context of
        None \<Rightarrow> None
      | Some d \<Rightarrow>
          if d = [] then None
          else (let context = dict_get d ''context_prompt'' []
                in if int (length context) > max_length
                   then Some (slice_to (max_length - 100) context @ truncation_marker)
                   else Some context))"

section \<open>Inputs for the examples\<close>

text \<open>
  A file that holds \<open>import os\<close> and a newline, and its tree: the module, the import
  statement and its one alias.
\<close>

definition unused_os_source :: string where
  "unused_os_source = ''import os'' @ nl"

definition unused_os_tree :: node where
  "unused_os_tree = Node Module [Node (Import [''os'']) [Node Other []]]"

text \<open>
  The tree of \<open>def f(a, b): return a and b\<close>: under the function, its arguments with
  the two parameters, and the return statement with the \<open>and\<close> of two names (each
  name has its context as a child).
\<close>

definition and_function :: node where
  "and_function =
     Node (FunctionDef ''f'' 1 [''a'', ''b''] None)
       [Node Other [Node Other [], Node Other []],
        Node Other [Node (BoolOp And) [Node Other [Node Other []], Node Other [Node Other []]]]]"

text \<open>A text file of ten bytes that was read, as a record; a context of 120 characters.\<close>

definition text_info :: file_info where
  "text_info =
     \<lparr>size' = 10, extension = ''.txt'', type' = ''Text'', classes = None, functions' = None,
      imports' = None, line_count = None, content_preview = Some ''0123456789'',
      complexity = None, docstrings = None, unused_imports = None, error = None\<rparr>"

definition long_context :: "(string \<times> string) list" where
  "long_context = [(''context_prompt'', replicate 120 CHR ''a'')]"

text \<open>
  A world with three files: \<open>notes.txt\<close> holds 200 characters, \<open>mod.py\<close> holds
  \<open>unused_os_source\<close>, \<open>bad.py\<close> holds \<open>def (\<close>, and \<open>link.txt\<close> is a symbolic link
  whose target is gone, so that \<open>stat\<close> raises. The parser accepts
  \<open>unused_os_source\<close> only.
\<close>

definition example_env :: env where
  "example_env =
     \<lparr>stat_size = (\<lambda>p. if p = ''/r/link.txt'' then Inl (OSError ''No such file or directory'')
                        else if p = ''/r/notes.txt'' then Inr 200 else Inr 10),
      read_text = (\<lambda>p. if p = ''/r/notes.txt'' then Inr (replicate 200 CHR ''x'')
                        else if p = ''/r/mod.py'' then Inr unused_os_source
                        else if p = ''/r/bad.py'' then Inr ''def (''
                        else Inl (OSError ''No such file or directory'')),
      ast_parse = (\<lambda>c. if c = unused_os_source then Inr unused_os_tree
                        else Inl (SyntaxError ''invalid syntax'')),
      format_percent = (\<lambda>x. ''?'')\<rparr>"

definition notes_txt :: path where
  "notes_txt =
     \<lparr>full_path = ''/r/notes.txt'', rel_path = ''notes.txt'', name' = ''notes.txt'',
      suffix' = ''.txt''\<rparr>"

definition mod_py :: path where
  "mod_py =
     \<lparr>full_path = ''/r/mod.py'', rel_path = ''mod.py'', name' = ''mod.py'', suffix' = ''.py''\<rparr>"

definition link_txt :: path where
  "link_txt =
     \<lparr>full_path = ''/r/link.txt'', rel_path = ''link.txt'', name' = ''link.txt'',
      suffix' = ''.txt''\<rparr>"

text \<open>The lines a record adds to \<open>total_lines\<close>.\<close>

definition lines_of :: "string \<times> file_info \<Rightarrow> nat" where
  "lines_of item = (case line_count (snd item) of None \<Rightarrow> 0 | Some n \<Rightarrow> n)"

text \<open>
  The four tests of the chain in \<open>categorize\<close>, in its order: a path is tested in
  lower case for either keyword of a pair.
\<close>

definition is_main :: "string \<Rightarrow> bool" where
  "is_main p = (sublist ''main'' (lower p) \<or> sublist ''app'' (lower p))"

definition is_utils :: "string \<Rightarrow> bool" where
  "is_utils p = (sublist ''util'' (lower p) \<or> sublist ''helper'' (lower p))"

definition is_test :: "string \<Rightarrow> bool" where
  "is_test p = (sublist ''test'' (lower p) \<or> sublist ''spec'' (lower p))"

definition is_config :: "string \<Rightarrow> bool" where
  "is_config p = (sublist ''config'' (lower p) \<or> sublist ''settings'' (lower p))"

text \<open>What one record adds to \<open>missing_docstrings\<close>.\<close>

definition docstring_entry :: "env \<Rightarrow> string \<times> file_info \<Rightarrow> string list" where
  "docstring_entry e item =
     (case docstrings (snd item) of
        None \<Rightarrow> []
      | Some d \<Rightarrow>
          if type' (snd item) = ''Python'' \<and> total_functions d > 0
             \<and> real (doc_functions d) / real (total_functions d) < 0.5
          then [fst item @ '' (''
                  @ format_percent e (real (doc_functions d) / real (total_functions d))
                  @ '' functions documented)'']
          else [])"

text \<open>
  Reading a run's events: the events after the first read of the flag that returned
  \<open>True\<close>, and the messages among some events.
\<close>

fun after_cancel :: "event list \<Rightarrow> event list" where
  "after_cancel [] = []"
| "after_cancel (IsSet b # evs) = (if b then evs else after_cancel evs)"
| "after_cancel (Notify m # evs) = after_cancel evs"

fun notifications :: "event list \<Rightarrow> string list" where
  "notifications [] = []"
| "notifications (Notify m # evs) = m # notifications evs"
| "notifications (IsSet b # evs) = notifications evs"

text \<open>Three cancellation flags: never set, set from the start, set after one file.\<close>

definition never_set :: "nat \<Rightarrow> bool" where
  "never_set k = False"

definition always_set :: "nat \<Rightarrow> bool" where
  "always_set k = True"

definition set_after_one :: "nat \<Rightarrow> bool" where
  "set_after_one k = (1 \<le> k)"

text \<open>
  Records: of \<open>notes.txt\<close> and of \<open>bad.py\<close> as \<open>_analyze_file\<close> builds them in
  \<open>example_env\<close>, and of a Python file with two functions of which \<open>n\<close> have a
  docstring.
\<close>

definition notes_info :: file_info where
  "notes_info =
     \<lparr>size' = 200, extension = ''.txt'', type' = ''Text'', classes = None, functions' = None,
      imports' = None, line_count = None,
      content_preview = Some (replicate 200 CHR ''x'' @ ''...''),
      complexity = None, docstrings = None, unused_imports = None, error = None\<rparr>"

definition bad_info :: file_info where
  "bad_info =
     \<lparr>size' = 10, extension = ''.py'', type' = ''Python'', classes = None, functions' = None,
      imports' = None, line_count = None, content_preview = None,
      complexity = None, docstrings = None, unused_imports = None,
      error = Some ''invalid syntax''\<rparr>"

definition two_functions_info :: "nat \<Rightarrow> file_info" where
  "two_functions_info n =
     \<lparr>size' = 40, extension = ''.py'', type' = ''Python'', classes = Some [],
      functions' = Some [], imports' = Some [], line_count = Some 4,
      content_preview = Some ''def f(): pass'', complexity = Some 1,
      docstrings = Some \<lparr>doc_functions = n, doc_classes = 0, total_functions = 2,
                          total_classes = 0\<rparr>,
      unused_imports = Some [], error = None\<rparr>"

definition bad_py :: path where
  "bad_py =
     \<lparr>full_path = ''/r/bad.py'', rel_path = ''bad.py'', name' = ''bad.py'', suffix' = ''.py''\<rparr>"

definition example_paths :: "(string \<times> file_info) list" where
  "example_paths =
     [(''src/main.py'', text_info), (''Tests/App.py'', text_info),
      (''utils/test_helper.py'', text_info), (''tests/spec.txt'', text_info),
      (''settings.json'', text_info), (''README.md'', text_info)]"

section \<open>Unused imports\<close>

lemma unused_loop_subset:
  "set (unused_loop content imps acc)
     \<subseteq> set acc \<union> {imp \<in> set imps. \<not> sublist (base_name imp) content}"
proof (induction imps arbitrary: acc)
  case Nil
  show ?case by simp
next
  case (Cons a imps)
  show ?case using Cons.IH [of "acc @ [a]"] Cons.IH [of acc] by auto
qed

lemma unused_needs_absent_base_name:
  "imp \<in> set (detect_unused_imports content tree) \<Longrightarrow> \<not> sublist (base_name imp) content"
  using unused_loop_subset [of content "collect_imports (walk [tree]) []" "[]"]
  by (auto simp: detect_unused_imports_def)

text \<open>A name that the text spells in an import statement is never a candidate.\<close>

lemma import_statement_hides_import:
  assumes "sublist (''import '' @ nm) content" and "base_name nm = nm"
  shows "nm \<notin> set (detect_unused_imports content tree)"
proof -
  have "sublist nm (''import '' @ nm)"
    unfolding sublist_def by (intro exI [of _ "''import ''"] exI [of _ "[]"]) simp
  then have "sublist nm content" using assms(1) by (rule sublist_order.order.trans)
  with assms(2) show ?thesis using unused_needs_absent_base_name [of nm content tree] by auto
qed

text \<open>
  C1. A file that holds the statement \<open>import os\<close> and no other occurrence of \<open>os\<close>:
  the claim is that \<open>os\<close> is among its unused-import candidates. The heuristic
  searches the whole text of the file, the import statement included, so the name is
  found there and the list of candidates is empty.
\<close>

theorem import_os_not_flagged:
  "detect_unused_imports unused_os_source unused_os_tree = []"
  by (simp add: detect_unused_imports_def unused_os_source_def unused_os_tree_def
      import_names_def base_name_def nl_def sublist_Cons_right)

section \<open>Complexity\<close>

text \<open>The score of a function is 1 and one for each branch node under it, at any depth.\<close>

lemma function_complexity_loop_count:
  "function_complexity_loop ns c = c + int (length (filter (\<lambda>n. is_branch (kind_of n)) ns))"
  by (induction ns arbitrary: c) (auto simp: function_complexity_step_def)

lemma function_complexity_counts_branches:
  "calculate_function_complexity f
     = 1 + int (length (filter (\<lambda>n. is_branch (kind_of n)) (walk [f])))"
  by (simp add: calculate_function_complexity_def function_complexity_loop_count)

text \<open>
  C2. The score of a function: the claim adds, to 1 and the branches, the operands less
  one of every \<open>and\<close>. On a function whose body holds one \<open>and\<close> of two operands the
  per-function score is 1, where the claim gives 2; the file-level count, run on the same
  node, gives 2.
\<close>

theorem function_complexity_ignores_and:
  "calculate_function_complexity and_function = 1 \<and> calculate_complexity and_function = 2"
  by (simp add: calculate_function_complexity_def calculate_complexity_def and_function_def
      function_complexity_step_def complexity_step_def is_branch_def)

section \<open>The condensed context\<close>

text \<open>
  C8, as claimed, fails below a maximum of 100: the slice \<open>context[:max_length - 100]\<close>
  then has a negative bound, which drops the last characters instead of keeping the
  first ones. A context of 120 characters under a maximum of 99 keeps 119 characters,
  where the claim keeps none.
\<close>

theorem context_slice_negative_counterexample:
  "get_context_for_chat (Some long_context) 99
     = Some (replicate 119 CHR ''a'' @ truncation_marker)
   \<and> get_context_for_chat (Some long_context) 99
     \<noteq> Some (take (nat (99 - 100)) (replicate 120 CHR ''a'') @ truncation_marker)"
  by (simp add: get_context_for_chat_def slice_to_def dict_get_def long_context_def)

text \<open>
  C8, amended: for a maximum length of at least 100, a stored context longer than the
  maximum comes back as its first \<open>max_length - 100\<close> characters followed by the
  truncation marker, and any other context comes back unchanged.
\<close>

theorem context_for_chat_truncates:
  assumes "d \<noteq> []" and "dict_get d ''context_prompt'' [] = context"
    and "100 \<le> max_length"
  shows "get_context_for_chat (Some d) max_length =
     Some (if int (length context) > max_length
           then take (nat (max_length - 100)) context @ truncation_marker
           else context)"
  using assms by (simp add: get_context_for_chat_def slice_to_def)

theorem context_for_chat_truncates_witness:
  "long_context \<noteq> [] \<and> (100::int) \<le> 110
   \<and> get_context_for_chat (Some long_context) 110
       = Some (replicate 10 CHR ''a'' @ truncation_marker)"
  using context_for_chat_truncates [of long_context "replicate 120 CHR ''a''" 110]
  by (simp add: long_context_def dict_get_def)

section \<open>The architecture summary\<close>

lemma categorize_frame:
  "total_files (categorize p a) = total_files a"
  "total_lines (categorize p a) = total_lines a"
  "avg_file_size (categorize p a) = avg_file_size a"
  "languages (categorize p a) = languages a"
  by (simp_all add: categorize_def)

lemma architecture_loop_append:
  "architecture_loop (xs @ ys) st = architecture_loop ys (architecture_loop xs st)"
  by (induction xs arbitrary: st) auto

lemma architecture_loop_stats:
  "architecture_loop fa (a, t) = (a', t') \<Longrightarrow>
     total_files a' = total_files a \<and> avg_file_size a' = avg_file_size a \<and>
     t' = t + int (sum_list (map (size' \<circ> snd) fa)) \<and>
     total_lines a' = total_lines a + sum_list (map lines_of fa)"
proof (induction fa arbitrary: a t)
  case Nil
  then show ?case by simp
next
  case (Cons item fa)
  obtain a1 t1 where st: "architecture_step item (a, t) = (a1, t1)"
    by (cases "architecture_step item (a, t)")
  have one: "total_files a1 = total_files a \<and> avg_file_size a1 = avg_file_size a \<and>
     t1 = t + int (size' (snd item)) \<and> total_lines a1 = total_lines a + lines_of item"
    using st
    by (cases item)
      (auto simp: architecture_step_def Let_def categorize_frame lines_of_def
        split: option.splits)
  from Cons.prems st have "architecture_loop fa (a1, t1) = (a', t')" by simp
  from Cons.IH [OF this] one show ?case by simp
qed

text \<open>
  C9. Over no file at all the summary is returned (no division is made) and its average
  file size is 0; over one file or more the summary is returned, and its average is
  the sum of the byte sizes divided by the number of files.
\<close>

theorem avg_file_size_defined:
  "(\<exists>a. analyze_architecture [] = Inr a \<and> avg_file_size a = 0) \<and>
   (fa \<noteq> [] \<longrightarrow> (\<exists>a. analyze_architecture fa = Inr a \<and>
       avg_file_size a = real (sum_list (map (size' \<circ> snd) fa)) / real (length fa)))"
proof
  show "\<exists>a. analyze_architecture [] = Inr a \<and> avg_file_size a = 0"
    by (simp add: analyze_architecture_def architecture_init_def)
next
  show "fa \<noteq> [] \<longrightarrow> (\<exists>a. analyze_architecture fa = Inr a \<and>
       avg_file_size a = real (sum_list (map (size' \<circ> snd) fa)) / real (length fa))"
  proof
    assume ne: "fa \<noteq> []"
    obtain a t where l: "architecture_loop fa (architecture_init fa, 0) = (a, t)"
      by (cases "architecture_loop fa (architecture_init fa, 0)")
    from architecture_loop_stats [OF l]
    have tf: "total_files a = length fa" and t: "t = int (sum_list (map (size' \<circ> snd) fa))"
      by (simp_all add: architecture_init_def)
    from ne tf have pos: "total_files a > 0" by simp
    show "\<exists>a. analyze_architecture fa = Inr a \<and>
       avg_file_size a = real (sum_list (map (size' \<circ> snd) fa)) / real (length fa)"
      using l pos tf t by (simp add: analyze_architecture_def py_truediv_def)
  qed
qed

theorem avg_file_size_defined_witness:
  "[(''a.txt'', text_info), (''b.txt'', text_info\<lparr>size' := 5\<rparr>)] \<noteq> []
   \<and> (\<exists>a. analyze_architecture [(''a.txt'', text_info), (''b.txt'', text_info\<lparr>size' := 5\<rparr>)]
            = Inr a \<and> avg_file_size a = 15 / 2)"
  using avg_file_size_defined [of "[(''a.txt'', text_info), (''b.txt'', text_info\<lparr>size' := 5\<rparr>)]"]
  by (simp add: text_info_def)

section \<open>Previews\<close>

text \<open>
  C10. A file that is not a \<open>.py\<close> file, can be read and holds exactly 200 characters:
  its record's preview is these 200 characters followed by \<open>...\<close>, although nothing
  was cut; so the marker does not tell that the file was longer.
\<close>

theorem preview_marks_exactly_200:
  assumes "stat_size e (full_path p) = Inr sz" and "suffix' p \<noteq> ''.py''"
    and "read_text e (full_path p) = Inr text" and "length text = 200"
  shows "get_content_preview e p 200 = text @ ''...'' \<and>
     (\<exists>info. analyze_file e p = Inr info \<and> content_preview info = Some (text @ ''...''))"
  using assms by (simp add: analyze_file_def get_content_preview_def)

theorem preview_marks_exactly_200_witness:
  "stat_size example_env (full_path notes_txt) = Inr 200 \<and> suffix' notes_txt \<noteq> ''.py''
   \<and> read_text example_env (full_path notes_txt) = Inr (replicate 200 CHR ''x'')
   \<and> length (replicate 200 CHR ''x'') = 200
   \<and> get_content_preview example_env notes_txt 200 = replicate 200 CHR ''x'' @ ''...''"
  using preview_marks_exactly_200 [of example_env notes_txt 200 "replicate 200 CHR ''x''"]
  by (simp add: example_env_def notes_txt_def)

section \<open>The four lists of the architecture summary\<close>

lemma categorize_alt:
  "categorize p a =
     (if is_main p then a\<lparr>main_modules := main_modules a @ [p]\<rparr>
      else if is_utils p then a\<lparr>utils_modules := utils_modules a @ [p]\<rparr>
      else if is_test p then a\<lparr>test_files := test_files a @ [p]\<rparr>
      else if is_config p then a\<lparr>config_files := config_files a @ [p]\<rparr>
      else a)"
  unfolding categorize_def is_main_def is_utils_def is_test_def is_config_def ..

lemma categorize_lists:
  "main_modules (categorize p a) = main_modules a @ filter is_main [p]"
  "utils_modules (categorize p a)
     = utils_modules a @ filter (\<lambda>p. \<not> is_main p \<and> is_utils p) [p]"
  "test_files (categorize p a)
     = test_files a @ filter (\<lambda>p. \<not> is_main p \<and> \<not> is_utils p \<and> is_test p) [p]"
  "config_files (categorize p a)
     = config_files a
       @ filter (\<lambda>p. \<not> is_main p \<and> \<not> is_utils p \<and> \<not> is_test p \<and> is_config p) [p]"
  by (simp_all add: categorize_alt)

lemma architecture_step_lists:
  assumes "architecture_step (p, info) (a, t) = (a', t')"
  shows "main_modules a' = main_modules a @ filter is_main [p] \<and>
     utils_modules a' = utils_modules a @ filter (\<lambda>p. \<not> is_main p \<and> is_utils p) [p] \<and>
     test_files a'
       = test_files a @ filter (\<lambda>p. \<not> is_main p \<and> \<not> is_utils p \<and> is_test p) [p] \<and>
     config_files a'
       = config_files a
         @ filter (\<lambda>p. \<not> is_main p \<and> \<not> is_utils p \<and> \<not> is_test p \<and> is_config p) [p]"
proof -
  let ?a1 = "a\<lparr>languages :=
      dict_set (type' info) (dict_get (languages a) (type' info) 0 + 1) (languages a)\<rparr>"
  from assms
  have "a' = categorize p ?a1 \<or> (\<exists>n. a' = (categorize p ?a1)\<lparr>total_lines := n\<rparr>)"
    by (auto simp: architecture_step_def Let_def split: option.splits)
  then show ?thesis
    by (elim disjE exE) (simp_all add: categorize_lists)
qed

lemma architecture_loop_lists:
  "architecture_loop fa (a, t) = (a', t') \<Longrightarrow>
     main_modules a' = main_modules a @ filter is_main (map fst fa) \<and>
     utils_modules a'
       = utils_modules a @ filter (\<lambda>p. \<not> is_main p \<and> is_utils p) (map fst fa) \<and>
     test_files a'
       = test_files a
         @ filter (\<lambda>p. \<not> is_main p \<and> \<not> is_utils p \<and> is_test p) (map fst fa) \<and>
     config_files a'
       = config_files a
         @ filter (\<lambda>p. \<not> is_main p \<and> \<not> is_utils p \<and> \<not> is_test p \<and> is_config p)
             (map fst fa)"
proof (induction fa arbitrary: a t)
  case Nil
  then show ?case by simp
next
  case (Cons item fa)
  obtain p info where item: "item = (p, info)" by (cases item)
  obtain a1 t1 where st: "architecture_step (p, info) (a, t) = (a1, t1)"
    by (cases "architecture_step (p, info) (a, t)")
  from Cons.prems st item have "architecture_loop fa (a1, t1) = (a', t')" by simp
  from Cons.IH [OF this] architecture_step_lists [OF st] item show ?case by simp
qed

text \<open>The summary is always returned, and it is the loop's but for the average.\<close>

lemma analyze_architecture_loop:
  "\<exists>a0 t q. architecture_loop fa (architecture_init fa, 0) = (a0, t)
     \<and> analyze_architecture fa = Inr (a0\<lparr>avg_file_size := q\<rparr>)"
proof -
  obtain a0 t where l: "architecture_loop fa (architecture_init fa, 0) = (a0, t)"
    by (cases "architecture_loop fa (architecture_init fa, 0)")
  have "analyze_architecture fa
      = Inr (a0\<lparr>avg_file_size :=
               if total_files a0 > 0 then real_of_int t / real (total_files a0)
               else avg_file_size a0\<rparr>)"
    using l by (simp add: analyze_architecture_def py_truediv_def)
  with l show ?thesis by blast
qed

lemma analyze_architecture_stats:
  "\<exists>a. analyze_architecture fa = Inr a \<and> total_files a = length fa
     \<and> total_lines a = sum_list (map lines_of fa)"
proof -
  obtain a0 t q where l: "architecture_loop fa (architecture_init fa, 0) = (a0, t)"
    and r: "analyze_architecture fa = Inr (a0\<lparr>avg_file_size := q\<rparr>)"
    using analyze_architecture_loop by blast
  from architecture_loop_stats [OF l] r show ?thesis
    by (simp add: architecture_init_def)
qed

text \<open>
  C6. The summary is always returned, and each of its four lists holds, in the order
  of the records, the paths that pass the test of its keyword pair and none of the
  tests before it in the chain (main, then utils, then test, then config). So no path
  is in more than one of the lists, and a path that passes no test is in none.
\<close>

theorem architecture_lists_by_priority:
  "\<exists>a. analyze_architecture fa = Inr a
     \<and> main_modules a = filter is_main (map fst fa)
     \<and> utils_modules a = filter (\<lambda>p. \<not> is_main p \<and> is_utils p) (map fst fa)
     \<and> test_files a
         = filter (\<lambda>p. \<not> is_main p \<and> \<not> is_utils p \<and> is_test p) (map fst fa)
     \<and> config_files a
         = filter (\<lambda>p. \<not> is_main p \<and> \<not> is_utils p \<and> \<not> is_test p \<and> is_config p)
             (map fst fa)
     \<and> (\<forall>p. length (filter (\<lambda>l. p \<in> set l)
                 [main_modules a, utils_modules a, test_files a, config_files a]) \<le> 1)"
proof -
  obtain a0 t q where l: "architecture_loop fa (architecture_init fa, 0) = (a0, t)"
    and r: "analyze_architecture fa = Inr (a0\<lparr>avg_file_size := q\<rparr>)"
    using analyze_architecture_loop by blast
  let ?a = "a0\<lparr>avg_file_size := q\<rparr>"
  from architecture_loop_lists [OF l]
  have lists: "main_modules ?a = filter is_main (map fst fa)"
    "utils_modules ?a = filter (\<lambda>p. \<not> is_main p \<and> is_utils p) (map fst fa)"
    "test_files ?a
       = filter (\<lambda>p. \<not> is_main p \<and> \<not> is_utils p \<and> is_test p) (map fst fa)"
    "config_files ?a
       = filter (\<lambda>p. \<not> is_main p \<and> \<not> is_utils p \<and> \<not> is_test p \<and> is_config p)
           (map fst fa)"
    by (simp_all add: architecture_init_def)
  have one: "length (filter (\<lambda>l. p \<in> set l)
      [main_modules ?a, utils_modules ?a, test_files ?a, config_files ?a]) \<le> 1" for p
    unfolding lists by auto
  from r lists one show ?thesis by blast
qed

lemma example_paths_tests:
  "filter is_main (map fst example_paths) = [''src/main.py'', ''Tests/App.py'']"
  "filter (\<lambda>p. \<not> is_main p \<and> is_utils p) (map fst example_paths) = [''utils/test_helper.py'']"
  "filter (\<lambda>p. \<not> is_main p \<and> \<not> is_utils p \<and> is_test p) (map fst example_paths)
     = [''tests/spec.txt'']"
  "filter (\<lambda>p. \<not> is_main p \<and> \<not> is_utils p \<and> \<not> is_test p \<and> is_config p)
     (map fst example_paths) = [''settings.json'']"
  by code_simp+

theorem architecture_lists_by_priority_witness:
  "\<exists>a. analyze_architecture example_paths = Inr a
     \<and> main_modules a = [''src/main.py'', ''Tests/App.py'']
     \<and> utils_modules a = [''utils/test_helper.py'']
     \<and> test_files a = [''tests/spec.txt'']
     \<and> config_files a = [''settings.json'']"
  using architecture_lists_by_priority [of example_paths]
  by (auto simp: example_paths_tests)

section \<open>The issue detector\<close>

lemma issues_loop_append:
  "issues_loop e (xs @ ys) iss =
     (case issues_loop e xs iss of Inl ex \<Rightarrow> Inl ex | Inr iss' \<Rightarrow> issues_loop e ys iss')"
  by (induction xs arbitrary: iss) (auto split: sum.splits)

lemma check_missing_docstrings_result:
  "check_missing_docstrings e p info xs =
     Inr (xs @ (case docstrings info of
        None \<Rightarrow> []
      | Some d \<Rightarrow>
          if total_functions d > 0
             \<and> real (doc_functions d) / real (total_functions d) < 0.5
          then [p @ '' (''
                  @ format_percent e (real (doc_functions d) / real (total_functions d))
                  @ '' functions documented)'']
          else []))"
  by (simp add: check_missing_docstrings_def py_truediv_def split: option.splits)

lemma issues_step_md:
  "\<exists>r. issues_step e item iss = Inr r \<and>
       missing_docstrings r = missing_docstrings iss @ docstring_entry e item"
  by (cases item)
    (simp add: issues_step_def check_missing_docstrings_result docstring_entry_def
      split: option.splits)

lemma issues_loop_md:
  "\<exists>r. issues_loop e fa iss = Inr r \<and>
       missing_docstrings r = missing_docstrings iss @ concat (map (docstring_entry e) fa)"
proof (induction fa arbitrary: iss)
  case Nil
  show ?case by simp
next
  case (Cons item fa)
  obtain r1 where r1: "issues_step e item iss = Inr r1"
    "missing_docstrings r1 = missing_docstrings iss @ docstring_entry e item"
    using issues_step_md by blast
  from Cons.IH [of r1] r1 show ?case by auto
qed

lemma detect_issues_md:
  "\<exists>r. detect_issues e fa = Inr r
     \<and> missing_docstrings r = concat (map (docstring_entry e) fa)"
  using issues_loop_md [of e fa issues_init] by (simp add: detect_issues_def issues_init_def)

text \<open>
  C5. A record of a Python file that has a function: among the records before and
  after it, the detector adds its entry to \<open>missing_docstrings\<close> when the documented
  share of its functions is below 0.5, and adds nothing for it otherwise. (The share is
  the exact quotient; for counts below \<open>2^53\<close> the double that Python computes is below
  0.5 exactly when the quotient is.)
\<close>

theorem missing_docstrings_below_half:
  assumes "type' info = ''Python''" and "docstrings info = Some d"
    and "0 < total_functions d"
  shows "\<exists>ix iss iss0 post.
           detect_issues e xs = Inr ix \<and>
           detect_issues e (xs @ (p, info) # ys) = Inr iss \<and>
           detect_issues e (xs @ ys) = Inr iss0 \<and>
           missing_docstrings iss0 = missing_docstrings ix @ post \<and>
           missing_docstrings iss =
             missing_docstrings ix
             @ (if real (doc_functions d) / real (total_functions d) < 0.5
                then [p @ '' (''
                        @ format_percent e (real (doc_functions d) / real (total_functions d))
                        @ '' functions documented)'']
                else [])
             @ post"
proof -
  have entry: "docstring_entry e (p, info) =
      (if real (doc_functions d) / real (total_functions d) < 0.5
       then [p @ '' ('' @ format_percent e (real (doc_functions d) / real (total_functions d))
               @ '' functions documented)'']
       else [])"
    using assms by (simp add: docstring_entry_def)
  obtain ix where ix: "detect_issues e xs = Inr ix"
    "missing_docstrings ix = concat (map (docstring_entry e) xs)"
    using detect_issues_md by blast
  obtain iss where iss: "detect_issues e (xs @ (p, info) # ys) = Inr iss"
    "missing_docstrings iss = concat (map (docstring_entry e) (xs @ (p, info) # ys))"
    using detect_issues_md by blast
  obtain iss0 where iss0: "detect_issues e (xs @ ys) = Inr iss0"
    "missing_docstrings iss0 = concat (map (docstring_entry e) (xs @ ys))"
    using detect_issues_md by blast
  show ?thesis
    using ix iss iss0 entry by simp
qed

theorem missing_docstrings_below_half_witness:
  "type' (two_functions_info 1) = ''Python''
   \<and> (\<exists>iss. detect_issues example_env [(''half.py'', two_functions_info 1)] = Inr iss
          \<and> missing_docstrings iss = [])
   \<and> (\<exists>iss. detect_issues example_env [(''none.py'', two_functions_info 0)] = Inr iss
          \<and> missing_docstrings iss = [''none.py (? functions documented)''])"
  using missing_docstrings_below_half [of "two_functions_info 1"
      "\<lparr>doc_functions = 1, doc_classes = 0, total_functions = 2, total_classes = 0\<rparr>"
      example_env "[]" "''half.py''" "[]"]
    missing_docstrings_below_half [of "two_functions_info 0"
      "\<lparr>doc_functions = 0, doc_classes = 0, total_functions = 2, total_classes = 0\<rparr>"
      example_env "[]" "''none.py''" "[]"]
  by (auto simp: two_functions_info_def detect_issues_def issues_init_def example_env_def)

section \<open>Records of files that failed to parse\<close>

lemma failure_record:
  assumes "analyze_file e p = Inr r" and "error r \<noteq> None"
  shows "line_count r = None \<and> complexity r = None \<and> docstrings r = None \<and>
         unused_imports r = None \<and> content_preview r = None \<and> type' r = get_file_type p"
proof (cases "analyze_python_file e p")
  case (Analysis cs fs imps lc preview cx ds unused)
  with assms show ?thesis
    by (auto simp: analyze_file_def Let_def split: sum.splits if_splits)
next
  case (Failure m)
  with assms show ?thesis
    by (auto simp: analyze_file_def Let_def split: sum.splits if_splits)
qed

lemma issues_step_failure_record:
  assumes "line_count r = None" "complexity r = None" "docstrings r = None"
    "unused_imports r = None" "content_preview r = None"
  shows "issues_step e (k, r) iss = Inr iss"
  using assms
  by (simp add: issues_step_def check_missing_docstrings_def check_complexity_def
      check_unused_def check_large_def check_bugs_def)

text \<open>
  C7. A record that \<open>_analyze_file\<close> returned with an error (the file could not be read
  or parsed), at any place among the records: the summary counts it in \<open>total_files\<close>,
  \<open>total_lines\<close> is what it is without the record, and the five lists of issues are what
  they are without the record.
\<close>

theorem parse_failure_record_counts_only:
  assumes "analyze_file e p = Inr r" and "error r \<noteq> None"
  shows "(\<exists>a a'. analyze_architecture (xs @ (k, r) # ys) = Inr a
            \<and> analyze_architecture (xs @ ys) = Inr a'
            \<and> total_files a = length (xs @ (k, r) # ys)
            \<and> total_files a = Suc (total_files a')
            \<and> total_lines a = total_lines a')
       \<and> (\<exists>iss. detect_issues e' (xs @ (k, r) # ys) = Inr iss
            \<and> detect_issues e' (xs @ ys) = Inr iss)"
proof -
  note fr = failure_record [OF assms]
  obtain a where a: "analyze_architecture (xs @ (k, r) # ys) = Inr a"
    "total_files a = length (xs @ (k, r) # ys)"
    "total_lines a = sum_list (map lines_of (xs @ (k, r) # ys))"
    using analyze_architecture_stats by blast
  obtain a' where a': "analyze_architecture (xs @ ys) = Inr a'"
    "total_files a' = length (xs @ ys)"
    "total_lines a' = sum_list (map lines_of (xs @ ys))"
    using analyze_architecture_stats by blast
  from fr have "lines_of (k, r) = 0" by (simp add: lines_of_def)
  with a a' have arch: "\<exists>a a'. analyze_architecture (xs @ (k, r) # ys) = Inr a
            \<and> analyze_architecture (xs @ ys) = Inr a'
            \<and> total_files a = length (xs @ (k, r) # ys)
            \<and> total_files a = Suc (total_files a')
            \<and> total_lines a = total_lines a'"
    by simp
  from fr have "issues_step e' (k, r) iss = Inr iss" for iss
    by (intro issues_step_failure_record) simp_all
  then have same: "detect_issues e' (xs @ (k, r) # ys) = detect_issues e' (xs @ ys)"
    by (simp add: detect_issues_def issues_loop_append split: sum.splits)
  obtain iss where "detect_issues e' (xs @ ys) = Inr iss"
    using detect_issues_md by blast
  with same arch show ?thesis by simp
qed

lemma analyze_bad_py: "analyze_file example_env bad_py = Inr bad_info"
  by (simp add: analyze_file_def analyze_python_file_def example_env_def bad_py_def
      bad_info_def get_file_type_def type_map_def lower_def lower_char_def
      unused_os_source_def nl_def)

theorem parse_failure_record_counts_only_witness:
  "analyze_file example_env bad_py = Inr bad_info \<and> error bad_info \<noteq> None
   \<and> (\<exists>a. analyze_architecture [(''a.py'', two_functions_info 0), (''bad.py'', bad_info)] = Inr a
          \<and> total_files a = 2 \<and> total_lines a = 4)
   \<and> (\<exists>iss. detect_issues example_env [(''a.py'', two_functions_info 0), (''bad.py'', bad_info)]
            = Inr iss
          \<and> detect_issues example_env [(''a.py'', two_functions_info 0)] = Inr iss)"
proof -
  have err: "error bad_info \<noteq> None" by (simp add: bad_info_def)
  have lines: "\<exists>a'. analyze_architecture [(''a.py'', two_functions_info 0)] = Inr a'
      \<and> total_lines a' = 4"
    using analyze_architecture_stats [of "[(''a.py'', two_functions_info 0)]"]
    by (auto simp: lines_of_def two_functions_info_def)
  from parse_failure_record_counts_only [OF analyze_bad_py err,
      of "[(''a.py'', two_functions_info 0)]" "''bad.py''" "[]" example_env] lines
  show ?thesis using analyze_bad_py err by auto
qed

section \<open>Failures of single files, and cancellation\<close>

lemma str_nat_small:
  "str_nat 1 = ''1''" "str_nat 2 = ''2''"
  "str_nat (Suc 0) = ''1''" "str_nat (Suc (Suc 0)) = ''2''"
  by code_simp+

text \<open>What \<open>_analyze_file\<close> absorbs: once \<open>stat\<close> has returned, a record is returned.\<close>

lemma analyze_file_absorbs_read_and_parse:
  "stat_size e (full_path p) = Inr sz \<Longrightarrow> \<exists>info. analyze_file e p = Inr info"
  by (simp add: analyze_file_def Let_def)

text \<open>
  C4. A failure of one file never aborts the run: so the claim. A failure of \<open>stat\<close>
  does. With a callback and a flag that is never set, the run over \<open>link.txt\<close> (a link
  whose target is gone) and \<open>notes.txt\<close> ends in the exception that \<open>stat\<close> raised on the
  first file; no record is returned and the second file is never reached.
\<close>

theorem stat_failure_aborts_run:
  "analyze_file example_env link_txt = Inl (OSError ''No such file or directory'')
   \<and> analyze_project example_env True never_set [link_txt, notes_txt]
       = ([Notify ''Starting project analysis...'', IsSet False,
           Notify ''Analyzing link.txt... (1/2)''],
          Inl (OSError ''No such file or directory''))"
  by (simp add: analyze_project_def never_set_def notify_def analyze_file_def
      example_env_def link_txt_def str_nat_small)

text \<open>The stages after the loop never raise.\<close>

lemma feedback_step_total: "\<exists>s. feedback_step e item = Inr s"
  by (cases item)
    (simp add: feedback_step_def feedback_python_def feedback_docstrings_def py_truediv_def
      Let_def split: option.splits)

lemma feedback_loop_total: "\<exists>r. feedback_loop e fa fb = Inr r"
proof (induction fa arbitrary: fb)
  case Nil
  show ?case by simp
next
  case (Cons item fa)
  obtain s where "feedback_step e item = Inr s" using feedback_step_total by blast
  with Cons.IH [of "dict_set (fst item) s fb"] show ?case by simp
qed

lemma create_summary_total: "\<exists>s. create_summary a iss = Inr s"
  by (simp add: create_summary_def py_truediv_def)

lemma analyze_stages_result:
  "\<exists>a iss fb sm.
     analyze_architecture fa = Inr a \<and> detect_issues e fa = Inr iss
     \<and> generate_file_feedback e fa = Inr fb \<and> create_summary a iss = Inr sm
     \<and> analyze_stages e cb is_set k fa =
         (notify cb ''Analyzing project architecture...''
            @ notify cb ''Detecting potential issues...''
            @ notify cb ''Generating improvement suggestions...''
            @ notify cb ''Creating file-specific feedback...''
            @ final_notice cb is_set k,
          Inr \<lparr>file_analysis = fa, res_architecture = a, res_issues = iss,
               res_suggestions = generate_suggestions a iss, file_feedback = fb,
               res_summary = sm\<rparr>)"
proof -
  obtain a where a: "analyze_architecture fa = Inr a"
    using analyze_architecture_stats by blast
  obtain iss where iss: "detect_issues e fa = Inr iss"
    using detect_issues_md by blast
  obtain fb where fb: "generate_file_feedback e fa = Inr fb"
    using feedback_loop_total [of e fa "[]"] by (auto simp: generate_file_feedback_def)
  obtain sm where sm: "create_summary a iss = Inr sm" using create_summary_total by blast
  have "analyze_stages e cb is_set k fa =
         (notify cb ''Analyzing project architecture...''
            @ notify cb ''Detecting potential issues...''
            @ notify cb ''Generating improvement suggestions...''
            @ notify cb ''Creating file-specific feedback...''
            @ final_notice cb is_set k,
          Inr \<lparr>file_analysis = fa, res_architecture = a, res_issues = iss,
               res_suggestions = generate_suggestions a iss, file_feedback = fb,
               res_summary = sm\<rparr>)"
    by (simp add: analyze_stages_def a iss fb sm Let_def)
  with a iss fb sm show ?thesis by blast
qed

lemma after_cancel_append:
  "IsSet True \<notin> set evs \<Longrightarrow> after_cancel (evs @ IsSet True # evs') = evs'"
  by (induction evs rule: after_cancel.induct) auto

text \<open>
  The loop, when the flag is first read as set at the \<open>k\<close>-th file: its events are
  those of the loop over the first \<open>k\<close> files, then the read of the flag.
\<close>

lemma analyze_loop_cancel:
  "k < length files \<Longrightarrow> (\<forall>j<k. \<not> is_set (i + j)) \<Longrightarrow> is_set (i + k) \<Longrightarrow>
   analyze_loop e cb is_set n i (take k files) fa = (evs, Inr (fa', k')) \<Longrightarrow>
   analyze_loop e cb is_set n i files fa = (evs @ [IsSet True], Inr (fa', Suc (i + k)))
   \<and> IsSet True \<notin> set evs"
proof (induction k arbitrary: files i fa evs)
  case 0
  then obtain f fs where "files = f # fs" by (cases files) auto
  with 0 show ?case by simp
next
  case (Suc k)
  then obtain f fs where files: "files = f # fs" by (cases files) auto
  from Suc.prems(2) have notset: "\<not> is_set i" by force
  from Suc.prems(2) have later: "\<forall>j<k. \<not> is_set (Suc i + j)" by force
  from Suc.prems(3) have setk: "is_set (Suc i + k)" by simp
  from Suc.prems(1) files have len: "k < length fs" by simp
  let ?ev0 = "IsSet False
      # notify cb (''Analyzing '' @ name' f @ ''... ('' @ str_nat (i + 1)
                    @ ''/'' @ str_nat n @ '')'')"
  from Suc.prems(4) files notset obtain info where info: "analyze_file e f = Inr info"
    by (cases "analyze_file e f") (auto simp: Let_def)
  obtain evs1 r1 where rest: "analyze_loop e cb is_set n (Suc i) (take k fs)
      (dict_set (rel_path f) info fa) = (evs1, r1)"
    by (cases "analyze_loop e cb is_set n (Suc i) (take k fs) (dict_set (rel_path f) info fa)")
  from Suc.prems(4) files notset info rest
  have evs: "evs = ?ev0 @ evs1" and r1: "r1 = Inr (fa', k')"
    by (auto simp: Let_def)
  from Suc.IH [OF len later setk rest [unfolded r1]]
  have ih: "analyze_loop e cb is_set n (Suc i) fs (dict_set (rel_path f) info fa)
      = (evs1 @ [IsSet True], Inr (fa', Suc (Suc i + k)))" and nt: "IsSet True \<notin> set evs1"
    by auto
  from ih nt files notset info evs show ?case
    by (auto simp: Let_def notify_def)
qed

text \<open>
  C3, as claimed, fails: after the loop has read the flag as set, the run still goes
  through its four stages and reports each. With the flag set from the start, five
  messages follow the read of the flag, where the claim allows one.
\<close>

theorem cancel_notifications_counterexample:
  "notifications (after_cancel (fst (analyze_project example_env True always_set [notes_txt])))
     = [''Analyzing project architecture...'', ''Detecting potential issues...'',
        ''Generating improvement suggestions...'', ''Creating file-specific feedback...'',
        ''Analysis cancelled'']
   \<and> \<not> length (notifications (after_cancel
          (fst (analyze_project example_env True always_set [notes_txt])))) \<le> 1"
proof -
  obtain r where "analyze_stages example_env True always_set (Suc 0) [] =
     ([Notify ''Analyzing project architecture...'', Notify ''Detecting potential issues...'',
       Notify ''Generating improvement suggestions...'',
       Notify ''Creating file-specific feedback...'', IsSet True,
       Notify ''Analysis cancelled''], Inr r)"
    using analyze_stages_result [of "[]" example_env True always_set "Suc 0"]
    by (auto simp: always_set_def notify_def final_notice_def)
  then show ?thesis
    by (simp add: analyze_project_def always_set_def notify_def)
qed

text \<open>
  C3, amended: in a run in which the loop first reads the flag as set at the \<open>k\<close>-th
  file, and the flag is still set at the end, nothing is reported for a further file.
  With a progress callback the messages after that read are those of the four stages
  and then, last, \<open>Analysis cancelled\<close>; without one there is no message at all. The
  result is returned (no exception), provided none of the first \<open>k\<close> files failed at
  \<open>stat\<close>: it holds the records of these files, and its architecture summary, issues,
  suggestions, feedback and summary are those computed from these records.
\<close>

theorem cancel_ends_file_notifications:
  assumes "k < length files" and "\<forall>j<k. \<not> is_set j" and "is_set k" and "is_set (Suc k)"
    and "analyze_loop e cb is_set (length files) 0 (take k files) [] = (evs, Inr (fa, k'))"
  shows "(\<exists>a iss fb sm.
            analyze_architecture fa = Inr a \<and> detect_issues e fa = Inr iss
          \<and> generate_file_feedback e fa = Inr fb \<and> create_summary a iss = Inr sm
          \<and> analyze_project e cb is_set files =
              (notify cb ''Starting project analysis...'' @ evs @ IsSet True
                 # (if cb
                    then [Notify ''Analyzing project architecture...'',
                          Notify ''Detecting potential issues...'',
                          Notify ''Generating improvement suggestions...'',
                          Notify ''Creating file-specific feedback...'', IsSet True,
                          Notify ''Analysis cancelled'']
                    else []),
               Inr \<lparr>file_analysis = fa, res_architecture = a, res_issues = iss,
                    res_suggestions = generate_suggestions a iss, file_feedback = fb,
                    res_summary = sm\<rparr>))
         \<and> IsSet True \<notin> set evs
         \<and> notifications (after_cancel (fst (analyze_project e cb is_set files))) =
             (if cb
              then [''Analyzing project architecture...'', ''Detecting potential issues...'',
                    ''Generating improvement suggestions...'',
                    ''Creating file-specific feedback...'', ''Analysis cancelled'']
              else [])"
proof -
  let ?tail = "if cb
     then [Notify ''Analyzing project architecture...'',
           Notify ''Detecting potential issues...'',
           Notify ''Generating improvement suggestions...'',
           Notify ''Creating file-specific feedback...'', IsSet True,
           Notify ''Analysis cancelled'']
     else []"
  from analyze_loop_cancel [of k files is_set 0 e cb "length files" "[]" evs fa k'] assms
  have loop: "analyze_loop e cb is_set (length files) 0 files []
      = (evs @ [IsSet True], Inr (fa, Suc k))" and nt: "IsSet True \<notin> set evs"
    by auto
  obtain a iss fb sm where a: "analyze_architecture fa = Inr a"
    and iss: "detect_issues e fa = Inr iss"
    and fb: "generate_file_feedback e fa = Inr fb"
    and sm: "create_summary a iss = Inr sm"
    and st: "analyze_stages e cb is_set (Suc k) fa =
       (notify cb ''Analyzing project architecture...''
          @ notify cb ''Detecting potential issues...''
          @ notify cb ''Generating improvement suggestions...''
          @ notify cb ''Creating file-specific feedback...''
          @ final_notice cb is_set (Suc k),
        Inr \<lparr>file_analysis = fa, res_architecture = a, res_issues = iss,
             res_suggestions = generate_suggestions a iss, file_feedback = fb,
             res_summary = sm\<rparr>)"
    using analyze_stages_result [of fa e cb is_set "Suc k"] by blast
  have tail: "notify cb ''Analyzing project architecture...''
          @ notify cb ''Detecting potential issues...''
          @ notify cb ''Generating improvement suggestions...''
          @ notify cb ''Creating file-specific feedback...''
          @ final_notice cb is_set (Suc k) = ?tail"
    using assms(4) by (simp add: notify_def final_notice_def)
  have run: "analyze_project e cb is_set files =
      (notify cb ''Starting project analysis...'' @ evs @ IsSet True # ?tail,
       Inr \<lparr>file_analysis = fa, res_architecture = a, res_issues = iss,
            res_suggestions = generate_suggestions a iss, file_feedback = fb,
            res_summary = sm\<rparr>)"
    unfolding tail [symmetric] by (simp add: analyze_project_def loop st)
  have "IsSet True \<notin> set (notify cb ''Starting project analysis...'' @ evs)"
    using nt by (simp add: notify_def)
  from after_cancel_append [OF this, of ?tail]
  have "after_cancel (fst (analyze_project e cb is_set files)) = ?tail"
    by (simp add: run)
  then have after: "notifications (after_cancel (fst (analyze_project e cb is_set files))) =
      (if cb
       then [''Analyzing project architecture...'', ''Detecting potential issues...'',
             ''Generating improvement suggestions...'',
             ''Creating file-specific feedback...'', ''Analysis cancelled'']
       else [])"
    by simp
  from a iss fb sm run have "\<exists>a iss fb sm.
            analyze_architecture fa = Inr a \<and> detect_issues e fa = Inr iss
          \<and> generate_file_feedback e fa = Inr fb \<and> create_summary a iss = Inr sm
          \<and> analyze_project e cb is_set files =
              (notify cb ''Starting project analysis...'' @ evs @ IsSet True # ?tail,
               Inr \<lparr>file_analysis = fa, res_architecture = a, res_issues = iss,
                    res_suggestions = generate_suggestions a iss, file_feedback = fb,
                    res_summary = sm\<rparr>)"
    by blast
  with nt after show ?thesis by blast
qed

lemma analyze_notes_txt: "analyze_file example_env notes_txt = Inr notes_info"
  by (simp add: analyze_file_def get_content_preview_def example_env_def notes_txt_def
      notes_info_def get_file_type_def type_map_def lower_def lower_char_def)

lemma loop_over_notes_txt:
  "analyze_loop example_env True set_after_one 2 0 [notes_txt] []
     = ([IsSet False, Notify ''Analyzing notes.txt... (1/2)''],
        Inr ([(''notes.txt'', notes_info)], 1))"
  by (simp add: analyze_notes_txt set_after_one_def notify_def str_nat_small Let_def)
    (simp add: notes_txt_def)

lemma silent_loop_over_notes_txt:
  "analyze_loop example_env False set_after_one 2 0 [notes_txt] []
     = ([IsSet False], Inr ([(''notes.txt'', notes_info)], 1))"
  by (simp add: analyze_notes_txt set_after_one_def notify_def Let_def)
    (simp add: notes_txt_def)

theorem cancel_ends_file_notifications_witness:
  "(1::nat) < length [notes_txt, mod_py] \<and> \<not> set_after_one 0 \<and> set_after_one 1
   \<and> set_after_one (Suc 1)
   \<and> (\<exists>a iss fb sm.
          analyze_architecture [(''notes.txt'', notes_info)] = Inr a
        \<and> detect_issues example_env [(''notes.txt'', notes_info)] = Inr iss
        \<and> generate_file_feedback example_env [(''notes.txt'', notes_info)] = Inr fb
        \<and> create_summary a iss = Inr sm
        \<and> analyze_project example_env True set_after_one [notes_txt, mod_py] =
           ([Notify ''Starting project analysis...'', IsSet False,
             Notify ''Analyzing notes.txt... (1/2)'', IsSet True,
             Notify ''Analyzing project architecture...'',
             Notify ''Detecting potential issues...'',
             Notify ''Generating improvement suggestions...'',
             Notify ''Creating file-specific feedback...'', IsSet True,
             Notify ''Analysis cancelled''],
            Inr \<lparr>file_analysis = [(''notes.txt'', notes_info)], res_architecture = a,
                 res_issues = iss, res_suggestions = generate_suggestions a iss,
                 file_feedback = fb, res_summary = sm\<rparr>))
   \<and> fst (analyze_project example_env False set_after_one [notes_txt, mod_py])
       = [IsSet False, IsSet True]"
proof -
  have flag: "\<forall>j<1. \<not> set_after_one j" "set_after_one 1" "set_after_one (Suc 1)"
    by (simp_all add: set_after_one_def)
  have len2: "length [notes_txt, mod_py] = 2" and first: "take 1 [notes_txt, mod_py] = [notes_txt]"
    by simp_all
  have loop: "analyze_loop example_env True set_after_one (length [notes_txt, mod_py]) 0
      (take 1 [notes_txt, mod_py]) []
     = ([IsSet False, Notify ''Analyzing notes.txt... (1/2)''],
        Inr ([(''notes.txt'', notes_info)], 1))"
    unfolding len2 first by (rule loop_over_notes_txt)
  have silent: "analyze_loop example_env False set_after_one (length [notes_txt, mod_py]) 0
      (take 1 [notes_txt, mod_py]) []
     = ([IsSet False], Inr ([(''notes.txt'', notes_info)], 1))"
    unfolding len2 first by (rule silent_loop_over_notes_txt)
  have len: "(1::nat) < length [notes_txt, mod_py]" by simp
  from cancel_ends_file_notifications [OF len flag loop]
  have loud_run: "\<exists>a iss fb sm.
          analyze_architecture [(''notes.txt'', notes_info)] = Inr a
        \<and> detect_issues example_env [(''notes.txt'', notes_info)] = Inr iss
        \<and> generate_file_feedback example_env [(''notes.txt'', notes_info)] = Inr fb
        \<and> create_summary a iss = Inr sm
        \<and> analyze_project example_env True set_after_one [notes_txt, mod_py] =
           ([Notify ''Starting project analysis...'', IsSet False,
             Notify ''Analyzing notes.txt... (1/2)'', IsSet True,
             Notify ''Analyzing project architecture...'',
             Notify ''Detecting potential issues...'',
             Notify ''Generating improvement suggestions...'',
             Notify ''Creating file-specific feedback...'', IsSet True,
             Notify ''Analysis cancelled''],
            Inr \<lparr>file_analysis = [(''notes.txt'', notes_info)], res_architecture = a,
                 res_issues = iss, res_suggestions = generate_suggestions a iss,
                 file_feedback = fb, res_summary = sm\<rparr>)"
    by (simp add: notify_def)
  from cancel_ends_file_notifications [OF len flag silent]
  have silent_run: "fst (analyze_project example_env False set_after_one [notes_txt, mod_py])
       = [IsSet False, IsSet True]"
    by (auto simp: notify_def)
  have "\<not> set_after_one 0" by (simp add: set_after_one_def)
  with len flag(2,3) loud_run silent_run show ?thesis by blast
qed

end
